theory Spec2Isabelle
  imports Complex_Main "HOL-Library.Multiset" "HOL-Library.Monad_Syntax"
begin

section \<open>JavaScript numbers\<close>

text \<open>
  A JavaScript \<^verbatim>\<open>number\<close> is an IEEE 754 double. The special values are modelled as they
  are: \<open>NaN\<close>, \<open>PosInf\<close> (\<^verbatim>\<open>Infinity\<close>) and \<open>NegInf\<close> (\<^verbatim>\<open>-Infinity\<close>). A finite
  value \<open>Fin x\<close> carries the real number \<open>x\<close>: arithmetic on finite values is exact, so
  rounding, overflow and underflow are not modelled, and there is one zero (the sign of
  a zero, which only decides the sign of an infinite quotient, is not modelled: a zero
  divisor behaves as \<^verbatim>\<open>+0\<close>).
\<close>

datatype jsnum = NaN | NegInf | Fin real | PosInf

fun isFinite :: "jsnum \<Rightarrow> bool" where
  "isFinite (Fin x) = True"
| "isFinite _ = False"

text \<open>The sign of a number that is not \<open>NaN\<close>, and the infinity of a given sign
  (\<open>NaN\<close> for sign zero, as in \<^verbatim>\<open>Infinity * 0\<close> and \<^verbatim>\<open>0 / 0\<close>).\<close>

fun jsign :: "jsnum \<Rightarrow> real" where
  "jsign (Fin x) = sgn x"
| "jsign PosInf = 1"
| "jsign NegInf = - 1"
| "jsign NaN = 0"

definition inf_of_sign :: "real \<Rightarrow> jsnum" where
  "inf_of_sign s = (if 0 < s then PosInf else if s < 0 then NegInf else NaN)"

fun jneg :: "jsnum \<Rightarrow> jsnum" where
  "jneg NaN = NaN"
| "jneg NegInf = PosInf"
| "jneg (Fin x) = Fin (- x)"
| "jneg PosInf = NegInf"

fun jadd :: "jsnum \<Rightarrow> jsnum \<Rightarrow> jsnum" where
  "jadd NaN b = NaN"
| "jadd a NaN = NaN"
| "jadd (Fin x) (Fin y) = Fin (x + y)"
| "jadd (Fin x) b = b"
| "jadd a (Fin y) = a"
| "jadd PosInf PosInf = PosInf"
| "jadd NegInf NegInf = NegInf"
| "jadd PosInf NegInf = NaN"
| "jadd NegInf PosInf = NaN"

definition jsub :: "jsnum \<Rightarrow> jsnum \<Rightarrow> jsnum" where
  "jsub a b = jadd a (jneg b)"

fun jmul :: "jsnum \<Rightarrow> jsnum \<Rightarrow> jsnum" where
  "jmul NaN b = NaN"
| "jmul a NaN = NaN"
| "jmul (Fin x) (Fin y) = Fin (x * y)"
| "jmul a b = inf_of_sign (jsign a * jsign b)"

fun jdiv :: "jsnum \<Rightarrow> jsnum \<Rightarrow> jsnum" where
  "jdiv NaN b = NaN"
| "jdiv a NaN = NaN"
| "jdiv (Fin x) (Fin y) = (if y = 0 then inf_of_sign (sgn x) else Fin (x / y))"
| "jdiv (Fin x) b = Fin 0"
| "jdiv a (Fin y) = inf_of_sign (jsign a * (if y < 0 then - 1 else 1))"
| "jdiv a b = NaN"

text \<open>\<^verbatim>\<open><\<close> on numbers: false as soon as one side is \<open>NaN\<close>.\<close>

fun jless :: "jsnum \<Rightarrow> jsnum \<Rightarrow> bool" where
  "jless NaN b = False"
| "jless a NaN = False"
| "jless (Fin x) (Fin y) = (x < y)"
| "jless NegInf NegInf = False"
| "jless NegInf b = True"
| "jless a NegInf = False"
| "jless PosInf b = False"
| "jless a PosInf = True"

text \<open>\<^verbatim>\<open>Math.min\<close> and \<^verbatim>\<open>Math.max\<close> of two numbers: \<open>NaN\<close> if either is.\<close>

fun Math_min :: "jsnum \<Rightarrow> jsnum \<Rightarrow> jsnum" where
  "Math_min NaN b = NaN"
| "Math_min a NaN = NaN"
| "Math_min a b = (if jless b a then b else a)"

fun Math_max :: "jsnum \<Rightarrow> jsnum \<Rightarrow> jsnum" where
  "Math_max NaN b = NaN"
| "Math_max a NaN = NaN"
| "Math_max a b = (if jless a b then b else a)"

section \<open>AnalyticsService.calculateStakingROI\<close>

record staking_roi =
  stakingROI :: jsnum
  directPaymentCost :: jsnum
  savings :: jsnum
  breakEvenPoint :: jsnum

definition calculateStakingROI :: "jsnum \<Rightarrow> jsnum \<Rightarrow> jsnum \<Rightarrow> staking_roi" where
  "calculateStakingROI stakedAmount creditsUsed timeframe =
     (let creditRate = Fin 0.05;
          stakingRate = Fin 0.2;
          directPaymentCost = jmul creditsUsed creditRate;
          stakingCost = stakedAmount;
          stakingCredits = jmul (jdiv stakedAmount creditRate) (jadd (Fin 1) stakingRate);
          stakingValue = jmul (Math_min creditsUsed stakingCredits) creditRate;
          savings = jsub directPaymentCost stakingValue;
          stakingROI = jmul (jdiv savings stakingCost) (Fin 100);
          dailyCreditUsage = jdiv creditsUsed timeframe;
          dailySavings = jmul (jmul dailyCreditUsage creditRate) stakingRate;
          breakEvenPoint = jdiv stakingCost dailySavings
      in \<lparr> stakingROI = stakingROI,
           directPaymentCost = directPaymentCost,
           savings = savings,
           breakEvenPoint = breakEvenPoint \<rparr>)"

section \<open>Data model\<close>

text \<open>
  The interfaces of \<^verbatim>\<open>services/supabase.ts\<close> and of the user context. The two files
  declare \<^verbatim>\<open>Agent\<close> and \<^verbatim>\<open>Bounty\<close> twice: the user context's declarations are the
  records \<open>agent\<close> and \<open>bounty\<close>, and the database rows of \<^verbatim>\<open>supabase.ts\<close> extend them
  by \<^verbatim>\<open>updatedAt\<close> (\<open>agent_row\<close>, \<open>bounty_row\<close>). Fields of the same name in two
  records are told apart by the record's name (\<open>bounty.status\<close>, \<open>agent.status\<close>).

  Numbers read from the store or the database (rates, amounts, balances) are JSON numbers,
  hence finite: they are \<open>real\<close>. A timestamp is an ISO 8601 string written by
  \<^verbatim>\<open>new Date().toISOString()\<close> or by the database; the model carries the instant that
  \<^verbatim>\<open>new Date(s).getTime()\<close> reads back from it, in milliseconds, as an \<open>int\<close>.
\<close>

datatype agent_status = Active | Completed | Failed

datatype bounty_status = Open | InProgress | Closed

datatype transaction_type = Stake | Unstake | Spend | Earn | Refund

record agent_performance =
  successRate :: real
  totalRuns :: real
  avgReward :: real

record agent =
  agentId :: string
  userId :: string
  name :: string
  description :: string
  promptTemplate :: string
  performanceMetrics :: agent_performance
  status :: agent_status
  createdAt :: int

record agent_row = agent +
  updatedAt :: int

record bounty =
  bountyId :: string
  creatorId :: string
  title :: string
  description :: string
  rewardAmount :: real
  status :: bounty_status
  assignedAgentId :: "string option"
  createdAt :: int

record bounty_row = bounty +
  updatedAt :: int

record credit_transaction =
  transactionId :: string
  userId :: string
  transaction_type :: transaction_type
  amount :: real
  description :: "string option"
  timestamp :: int

section \<open>AnalyticsService.getUserPerformanceMetrics\<close>

datatype activity_type = agent_created | bounty_completed | credits_earned | agent_optimized

record activity_event =
  event_id :: string
  event_type :: activity_type
  timestamp :: int
  description :: string
  event_value :: "real option"
  agentId :: "string option"
  bountyId :: "string option"

record performance_metrics =
  totalAgents :: nat
  activeAgents :: nat
  totalBounties :: nat
  completedBounties :: nat
  totalEarnings :: real
  averageSuccessRate :: real
  topPerformingAgent :: "agent_row option"
  recentActivity :: "activity_event list"

text \<open>
  \<^verbatim>\<open>Array.prototype.sort(comparefn)\<close> is stable, and for a consistent comparator its
  result is determined: the elements in an order where \<open>comparefn a b \<le> 0\<close> for \<open>a\<close>
  before \<open>b\<close>, equal elements in their original order. Insertion from the right
  computes that result.
\<close>

fun insort_cmp :: "('a \<Rightarrow> 'a \<Rightarrow> int) \<Rightarrow> 'a \<Rightarrow> 'a list \<Rightarrow> 'a list" where
  "insort_cmp cmp x [] = [x]"
| "insort_cmp cmp x (y # ys) =
     (if cmp x y \<le> 0 then x # y # ys else y # insort_cmp cmp x ys)"

definition js_sort :: "('a \<Rightarrow> 'a \<Rightarrow> int) \<Rightarrow> 'a list \<Rightarrow> 'a list" where
  "js_sort cmp xs = foldr (insort_cmp cmp) xs []"

text \<open>
  \<open>generateRecentActivity\<close>: the three \<^verbatim>\<open>forEach\<close> loops push onto \<open>activities\<close>, then the
  array is sorted. \<open>numberToString\<close> is the host's conversion of a number inside a
  template literal.
\<close>

definition generateRecentActivity ::
  "(real \<Rightarrow> string) \<Rightarrow> agent_row list \<Rightarrow> bounty_row list \<Rightarrow> credit_transaction list
     \<Rightarrow> activity_event list" where
  \<open>generateRecentActivity numberToString agents bounties transactions =
     (let activities = [];
          activities = fold (\<lambda>agent activities. activities @
              [\<lparr> event_id = ''agent_'' @ agent.agentId agent,
                 event_type = agent_created,
                 timestamp = agent.createdAt agent,
                 description = ''Created agent "'' @ agent.name agent @ ''"'',
                 event_value = None,
                 agentId = Some (agent.agentId agent),
                 bountyId = None \<rparr>]) agents activities;
          activities = fold (\<lambda>bounty activities. activities @
              [\<lparr> event_id = ''bounty_'' @ bounty.bountyId bounty,
                 event_type = bounty_completed,
                 timestamp = bounty_row.updatedAt bounty,
                 description = ''Completed bounty "'' @ title bounty @ ''"'',
                 event_value = Some (rewardAmount bounty),
                 agentId = None,
                 bountyId = Some (bounty.bountyId bounty) \<rparr>])
              (filter (\<lambda>b. bounty.status b = Closed) bounties) activities;
          activities = fold (\<lambda>transaction activities. activities @
              [\<lparr> event_id = ''earn_'' @ transactionId transaction,
                 event_type = credits_earned,
                 timestamp = credit_transaction.timestamp transaction,
                 description = ''Earned '' @ numberToString (amount transaction) @ '' credits'',
                 event_value = Some (amount transaction),
                 agentId = None,
                 bountyId = None \<rparr>])
              (filter (\<lambda>t. transaction_type t = Earn) transactions) activities
      in js_sort (\<lambda>a b. activity_event.timestamp b - activity_event.timestamp a) activities)\<close>

text \<open>
  \<open>getUserPerformanceMetrics\<close>. \<^verbatim>\<open>agents.reduce(f)\<close> without an initial value starts
  from the first agent and folds \<open>f\<close> over the others; it is only called on a non-empty
  array.
\<close>

definition getUserPerformanceMetrics ::
  "(real \<Rightarrow> string) \<Rightarrow> string \<Rightarrow> agent_row list \<Rightarrow> bounty_row list \<Rightarrow> credit_transaction list
     \<Rightarrow> performance_metrics" where
  "getUserPerformanceMetrics numberToString uid agents bounties transactions =
     (let userBounties = filter (\<lambda>b. creatorId b = uid) bounties;
          completed = filter (\<lambda>b. bounty.status b = Closed) userBounties;
          totalEarnings =
            foldl (\<lambda>sum t. sum + amount t) 0 (filter (\<lambda>t. transaction_type t = Earn) transactions);
          averageSuccessRate =
            (if length agents > 0
             then foldl (\<lambda>sum a. sum + successRate (performanceMetrics a)) 0 agents
                    / real (length agents)
             else 0);
          topPerformingAgent =
            (case agents of
               [] \<Rightarrow> None
             | first # others \<Rightarrow>
                 Some (foldl (\<lambda>best current.
                         if successRate (performanceMetrics current)
                              > successRate (performanceMetrics best)
                         then current else best) first others));
          recentActivity = generateRecentActivity numberToString agents bounties transactions
      in \<lparr> totalAgents = length agents,
           activeAgents = length (filter (\<lambda>a. agent.status a = Active) agents),
           totalBounties = length userBounties,
           completedBounties = length completed,
           totalEarnings = totalEarnings,
           averageSuccessRate = averageSuccessRate,
           topPerformingAgent = topPerformingAgent,
           recentActivity = take 10 recentActivity \<rparr>)"

section \<open>bountyService.claimBounty\<close>




section \<open>The user context and AgentLaunch.handleCreditLaunch\<close>

record user =
  userId :: string
  walletAddress :: string
  creditBalance :: real
  stakedAmount :: real
  agents :: "agent list"
  bounties :: "bounty list"

record form_data =
  name :: string
  description :: string
  promptTemplate :: string

text \<open>
  The state that the handler reads and writes: \<open>user\<close>, \<open>agents\<close> and \<open>bounties\<close> of the
  user provider, \<open>formData\<close> of the component, and the delays of the \<^verbatim>\<open>setTimeout\<close> calls
  that will run \<^verbatim>\<open>onBack\<close>.
\<close>

record app_state =
  user :: "user option"
  agents :: "agent list"
  bounties :: "bounty list"
  formData :: form_data
  timers :: "nat list"

text \<open>\<open>updateUser\<close> merges the given fields into the user, when there is one; the fields
  are given as the function that sets them.\<close>

definition updateUser :: "(user \<Rightarrow> user) \<Rightarrow> app_state \<Rightarrow> app_state" where
  "updateUser updates st =
     (case app_state.user st of
        Some u \<Rightarrow> st\<lparr> app_state.user := Some (updates u) \<rparr>
      | None \<Rightarrow> st)"

text \<open>\<open>addAgent\<close>: the five fields of \<open>agentData\<close> are the arguments after the clock.\<close>

definition addAgent ::
  "(real \<Rightarrow> string) \<Rightarrow> int \<Rightarrow> string \<Rightarrow> string \<Rightarrow> string \<Rightarrow> agent_performance \<Rightarrow> agent_status
     \<Rightarrow> app_state \<Rightarrow> app_state" where
  "addAgent numberToString now nm descr template metrics st_agent st =
     (case app_state.user st of
        Some u \<Rightarrow>
          (let newAgent = \<lparr> agent.agentId = ''agent_'' @ numberToString (real_of_int now),
                            agent.userId = user.userId u,
                            agent.name = nm,
                            agent.description = descr,
                            agent.promptTemplate = template,
                            performanceMetrics = metrics,
                            agent.status = st_agent,
                            agent.createdAt = now \<rparr>
           in st\<lparr> app_state.agents := app_state.agents st @ [newAgent] \<rparr>)
      | None \<Rightarrow> st)"

definition handleCreditLaunch :: "(real \<Rightarrow> string) \<Rightarrow> int \<Rightarrow> app_state \<Rightarrow> app_state" where
  "handleCreditLaunch numberToString now st =
     (case app_state.user st of
        None \<Rightarrow> st
      | Some u \<Rightarrow>
          if creditBalance u < 10 \<or> form_data.name (formData st) = ''''
             \<or> form_data.description (formData st) = ''''
             \<or> form_data.promptTemplate (formData st) = ''''
          then st
          else
            (let st1 = updateUser (\<lambda>usr. usr\<lparr> creditBalance := creditBalance u - 10 \<rparr>) st;
                 st2 = addAgent numberToString now
                         (form_data.name (formData st))
                         (form_data.description (formData st))
                         (form_data.promptTemplate (formData st))
                         \<lparr> successRate = 0, totalRuns = 0, avgReward = 0 \<rparr>
                         Active st1;
                 st3 = st2\<lparr> formData := \<lparr> name = '''', description = '''', promptTemplate = '''' \<rparr> \<rparr>
             in st3\<lparr> timers := timers st3 @ [1000] \<rparr>))"

section \<open>OpenAIService\<close>

subsection \<open>JavaScript values\<close>

text \<open>
  The value that \<^verbatim>\<open>JSON.parse\<close> returns is untyped: a wrapper reads properties of
  whatever the reply holds. \<open>JObj\<close> lists the own properties of a plain object.
\<close>

datatype jsval =
    JUndefined
  | JNull
  | JBool bool
  | JNum jsnum
  | JStr string
  | JArr "jsval list"
  | JObj "(string \<times> jsval) list"

text \<open>
  Built-ins of the host that are not expanded here: \<^verbatim>\<open>JSON.parse\<close> (\<open>None\<close> when it
  throws a \<^verbatim>\<open>SyntaxError\<close>), the conversion of a string to a number, and
  \<^verbatim>\<open>Array.prototype.join\<close> with its default separator (\<open>None\<close> when the conversion of
  an element throws).
\<close>

record host =
  JSON_parse :: "string \<Rightarrow> jsval option"
  StringToNumber :: "string \<Rightarrow> jsnum"
  Array_join :: "jsval list \<Rightarrow> string option"

text \<open>Truthiness, and \<^verbatim>\<open>a || b\<close> on values.\<close>

fun truthy :: "jsval \<Rightarrow> bool" where
  "truthy JUndefined = False"
| "truthy JNull = False"
| "truthy (JBool b) = b"
| "truthy (JNum n) = (n \<noteq> NaN \<and> n \<noteq> Fin 0)"
| "truthy (JStr s) = (s \<noteq> '''')"
| "truthy (JArr xs) = True"
| "truthy (JObj kvs) = True"

definition js_or :: "jsval \<Rightarrow> jsval \<Rightarrow> jsval" where
  "js_or a b = (if truthy a then a else b)"

text \<open>
  \<^verbatim>\<open>v.k\<close>, for a property name \<open>k\<close> that no prototype defines (as all the names read
  below): a \<^verbatim>\<open>TypeError\<close> (\<open>None\<close>) on \<^verbatim>\<open>null\<close> and \<^verbatim>\<open>undefined\<close>, the own property of an
  object, \<^verbatim>\<open>undefined\<close> otherwise.
\<close>

fun get_prop :: "jsval \<Rightarrow> string \<Rightarrow> jsval option" where
  "get_prop JUndefined k = None"
| "get_prop JNull k = None"
| "get_prop (JObj kvs) k = Some (case map_of kvs k of Some v \<Rightarrow> v | None \<Rightarrow> JUndefined)"
| "get_prop v k = Some JUndefined"

text \<open>
  \<^verbatim>\<open>ToNumber\<close>, which \<^verbatim>\<open>Math.min\<close> applies to its arguments. An array is joined and the
  string converted. A plain object converts through \<^verbatim>\<open>Object.prototype.toString\<close> to
  \<^verbatim>\<open>"[object Object]"\<close>, which is not a number, unless an own property \<^verbatim>\<open>toString\<close>
  (never callable in a parsed value) hides that method: then the conversion throws a
  \<^verbatim>\<open>TypeError\<close> (\<open>None\<close>).
\<close>

fun ToNumber :: "host \<Rightarrow> jsval \<Rightarrow> jsnum option" where
  "ToNumber h JUndefined = Some NaN"
| "ToNumber h JNull = Some (Fin 0)"
| "ToNumber h (JBool b) = Some (Fin (if b then 1 else 0))"
| "ToNumber h (JNum n) = Some n"
| "ToNumber h (JStr s) = Some (StringToNumber h s)"
| "ToNumber h (JArr xs) = map_option (StringToNumber h) (Array_join h xs)"
| "ToNumber h (JObj kvs) = (if map_of kvs ''toString'' = None then Some NaN else None)"

fun isArray :: "jsval \<Rightarrow> bool" where
  "isArray (JArr xs) = True"
| "isArray v = False"

fun elements :: "jsval \<Rightarrow> jsval list" where
  "elements (JArr xs) = xs"
| "elements v = []"

subsection \<open>The text-completion endpoint\<close>

text \<open>
  A thrown value is an \<^verbatim>\<open>Error\<close> with its message, or something else. A completion
  carries \<^verbatim>\<open>choices[0]?.message?.content\<close> and \<^verbatim>\<open>usage?.total_tokens\<close>, each possibly
  absent. The endpoint is the sequence of its replies: \<open>ep k\<close> is what
  \<^verbatim>\<open>openai.chat.completions.create\<close> does on the request number \<open>k\<close>, throwing or
  returning a completion. A wrapper is run from the number of requests sent so far and
  returns that number with its result; a result \<open>Inl e\<close> is the wrapper throwing \<open>e\<close>.
  The prompt that a wrapper builds from its arguments goes into the request only, so the
  arguments that only feed the prompt are not arguments of the model.
\<close>

datatype thrown = Error string | NonError

fun message_or :: "thrown \<Rightarrow> string \<Rightarrow> string" where
  "message_or (Error m) d = m"
| "message_or NonError d = d"

record completion =
  content :: "string option"
  total_tokens :: "nat option"

type_synonym endpoint = "nat \<Rightarrow> thrown + completion"

definition create :: "endpoint \<Rightarrow> nat \<Rightarrow> (thrown + completion) \<times> nat" where
  "create ep n = (ep n, Suc n)"

definition response_text :: "completion \<Rightarrow> string" where
  "response_text c = (case content c of Some s \<Rightarrow> s | None \<Rightarrow> '''')"

subsection \<open>executeAgent\<close>



subsection \<open>optimizePrompt\<close>

record agent_optimization_suggestion =
  currentPrompt :: string
  suggestedPrompt :: jsval
  reasoning :: jsval
  expectedImprovement :: jsval

text \<open>The inner \<^verbatim>\<open>try\<close> is a computation in \<open>option\<close>: \<open>None\<close> when \<^verbatim>\<open>JSON.parse\<close> or a
  property read throws; its \<^verbatim>\<open>catch\<close> binds nothing and returns the fallback.\<close>

definition optimizePrompt ::
  "host \<Rightarrow> string \<Rightarrow> endpoint \<Rightarrow> nat \<Rightarrow> (thrown + agent_optimization_suggestion) \<times> nat" where
  "optimizePrompt h current ep n =
     (case create ep n of
        (Inl e, n') \<Rightarrow>
          (Inl (Error (''Prompt optimization failed: '' @ message_or e ''Unknown error'')), n')
      | (Inr c, n') \<Rightarrow>
          (let response = response_text c;
               tried = do {
                 parsed \<leftarrow> JSON_parse h response;
                 suggested \<leftarrow> get_prop parsed ''suggestedPrompt'';
                 reason \<leftarrow> get_prop parsed ''reasoning'';
                 expected \<leftarrow> get_prop parsed ''expectedImprovement'';
                 Some \<lparr> currentPrompt = current,
                        suggestedPrompt = suggested,
                        reasoning = reason,
                        expectedImprovement = expected \<rparr> }
           in case tried of
                Some r \<Rightarrow> (Inr r, n')
              | None \<Rightarrow>
                  (Inr \<lparr> currentPrompt = current,
                         suggestedPrompt = JStr current,
                         reasoning =
                           JStr ''Unable to generate optimization suggestions at this time.'',
                         expectedImprovement = JStr ''Please try again later.'' \<rparr>, n')))"

subsection \<open>generatePerformanceInsights\<close>

record performance_insights =
  strengths :: jsval
  weaknesses :: jsval
  recommendations :: jsval
  marketOpportunities :: jsval

definition generatePerformanceInsights ::
  "host \<Rightarrow> endpoint \<Rightarrow> nat \<Rightarrow> (thrown + performance_insights) \<times> nat" where
  "generatePerformanceInsights h ep n =
     (case create ep n of
        (Inl e, n') \<Rightarrow>
          (Inl (Error (''Performance analysis failed: '' @ message_or e ''Unknown error'')), n')
      | (Inr c, n') \<Rightarrow>
          (let response = response_text c;
               tried = do {
                 parsed \<leftarrow> JSON_parse h response;
                 s \<leftarrow> get_prop parsed ''strengths'';
                 w \<leftarrow> get_prop parsed ''weaknesses'';
                 r \<leftarrow> get_prop parsed ''recommendations'';
                 m \<leftarrow> get_prop parsed ''marketOpportunities'';
                 Some \<lparr> strengths = js_or s (JArr []),
                        weaknesses = js_or w (JArr []),
                        recommendations = js_or r (JArr []),
                        marketOpportunities = js_or m (JArr []) \<rparr> }
           in case tried of
                Some r \<Rightarrow> (Inr r, n')
              | None \<Rightarrow>
                  (Inr \<lparr> strengths = JArr [JStr ''Consistent performance''],
                         weaknesses = JArr [JStr ''Limited data for analysis''],
                         recommendations = JArr [JStr ''Continue monitoring performance''],
                         marketOpportunities = JArr [JStr ''Explore new task types''] \<rparr>, n')))"

subsection \<open>validateBountySubmission\<close>

record submission_validation =
  score :: jsnum
  feedback :: jsval
  meetsRequirements :: bool
  suggestions :: "jsval list"

definition validateBountySubmission ::
  "host \<Rightarrow> endpoint \<Rightarrow> nat \<Rightarrow> (thrown + submission_validation) \<times> nat" where
  "validateBountySubmission h ep n =
     (case create ep n of
        (Inl e, n') \<Rightarrow>
          (Inl (Error (''Submission validation failed: '' @ message_or e ''Unknown error'')), n')
      | (Inr c, n') \<Rightarrow>
          (let response = response_text c;
               tried = do {
                 parsed \<leftarrow> JSON_parse h response;
                 sc \<leftarrow> get_prop parsed ''score'';
                 num \<leftarrow> ToNumber h (js_or sc (JNum (Fin 0)));
                 fb \<leftarrow> get_prop parsed ''feedback'';
                 mr \<leftarrow> get_prop parsed ''meetsRequirements'';
                 sg \<leftarrow> get_prop parsed ''suggestions'';
                 Some \<lparr> score = Math_max (Fin 0) (Math_min (Fin 100) num),
                        feedback = js_or fb (JStr ''No feedback available''),
                        meetsRequirements = truthy mr,
                        suggestions = (if isArray sg then elements sg else []) \<rparr> }
           in case tried of
                Some r \<Rightarrow> (Inr r, n')
              | None \<Rightarrow>
                  (Inr \<lparr> score = Fin 50,
                         feedback = JStr ''Unable to evaluate submission at this time'',
                         meetsRequirements = False,
                         suggestions = [JStr ''Please resubmit for manual review''] \<rparr>, n')))"

section \<open>The return-on-stake estimate\<close>



text \<open>
  Claim C8, as stated, fails where the timeframe is zero: the division by zero gives an
  infinite daily usage, the stake divided by it is 0, and all four results are finite
  although the timeframe is not positive. The results are finite for a negative stake as
  well.
\<close>

theorem calculateStakingROI_timeframe_zero_finite:
  "calculateStakingROI (Fin 20) (Fin 200) (Fin 0)
     = \<lparr> stakingROI = Fin 0, directPaymentCost = Fin 10, savings = Fin 0,
         breakEvenPoint = Fin 0 \<rparr> \<and>
   isFinite (stakingROI (calculateStakingROI (Fin 20) (Fin 200) (Fin 0))) \<and>
   isFinite (directPaymentCost (calculateStakingROI (Fin 20) (Fin 200) (Fin 0))) \<and>
   isFinite (savings (calculateStakingROI (Fin 20) (Fin 200) (Fin 0))) \<and>
   isFinite (breakEvenPoint (calculateStakingROI (Fin 20) (Fin 200) (Fin 0))) \<and>
   \<not> ((0::real) < 0) \<and>
   isFinite (stakingROI (calculateStakingROI (Fin (- 20)) (Fin 200) (Fin 30))) \<and>
   isFinite (directPaymentCost (calculateStakingROI (Fin (- 20)) (Fin 200) (Fin 30))) \<and>
   isFinite (savings (calculateStakingROI (Fin (- 20)) (Fin 200) (Fin 30))) \<and>
   isFinite (breakEvenPoint (calculateStakingROI (Fin (- 20)) (Fin 200) (Fin 30))) \<and>
   \<not> ((0::real) < - 20)"
  by (simp add: calculateStakingROI_def Let_def jsub_def inf_of_sign_def)

lemma stakingROI_zero_stake:
  "\<not> isFinite (stakingROI (calculateStakingROI (Fin 0) c t))"
  by (cases c; cases t)
     (simp_all add: calculateStakingROI_def Let_def jsub_def inf_of_sign_def sgn_if)

lemma breakEvenPoint_zero_credits:
  "\<not> isFinite (breakEvenPoint (calculateStakingROI s (Fin 0) t))"
  by (cases s; cases t)
     (simp_all add: calculateStakingROI_def Let_def jsub_def inf_of_sign_def sgn_if)

lemma breakEvenPoint_zero_timeframe:
  "c \<noteq> 0 \<Longrightarrow> breakEvenPoint (calculateStakingROI (Fin s) (Fin c) (Fin 0)) = Fin 0"
  by (simp add: calculateStakingROI_def Let_def jsub_def inf_of_sign_def sgn_if)

text \<open>
  Claim C8, amended. No guard stands before the divisions. With a stake of zero the
  returned \<open>stakingROI\<close> is a division by zero and is not finite, whatever the other
  inputs; with zero credits used the returned \<open>breakEvenPoint\<close> is a division by zero and
  is not finite, whatever the other inputs. With a timeframe of zero and credits used
  that are finite and not zero, the division by zero is the daily usage, which is
  infinite, and the returned \<open>breakEvenPoint\<close> of a finite stake is 0.
\<close>

theorem calculateStakingROI_division_by_zero:
  "\<not> isFinite (stakingROI (calculateStakingROI (Fin 0) credits days)) \<and>
   \<not> isFinite (breakEvenPoint (calculateStakingROI staked (Fin 0) days)) \<and>
   (c \<noteq> 0 \<longrightarrow>
      jdiv (Fin c) (Fin 0) = inf_of_sign (sgn c) \<and>
      \<not> isFinite (jdiv (Fin c) (Fin 0)) \<and>
      breakEvenPoint (calculateStakingROI (Fin s) (Fin c) (Fin 0)) = Fin 0)"
  using stakingROI_zero_stake breakEvenPoint_zero_credits breakEvenPoint_zero_timeframe
  by (simp add: inf_of_sign_def sgn_if)

text \<open>
  The three cases at concrete inputs, and the inputs of a user who has staked nothing and
  spent nothing, over 30 days.
\<close>

theorem calculateStakingROI_division_by_zero_witness:
  "(200::real) \<noteq> 0 \<and>
   stakingROI (calculateStakingROI (Fin 0) (Fin 200) (Fin 30)) = PosInf \<and>
   breakEvenPoint (calculateStakingROI (Fin 20) (Fin 0) (Fin 30)) = PosInf \<and>
   jdiv (Fin 200) (Fin 0) = PosInf \<and>
   breakEvenPoint (calculateStakingROI (Fin 20) (Fin 200) (Fin 0)) = Fin 0 \<and>
   stakingROI (calculateStakingROI (Fin 0) (Fin 0) (Fin 30)) = NaN \<and>
   breakEvenPoint (calculateStakingROI (Fin 0) (Fin 0) (Fin 30)) = NaN"
proof -
  have "stakingROI (calculateStakingROI (Fin 0) (Fin 200) (Fin 30)) = PosInf"
    by (simp add: calculateStakingROI_def Let_def jsub_def inf_of_sign_def)
  moreover have "breakEvenPoint (calculateStakingROI (Fin 20) (Fin 0) (Fin 30)) = PosInf"
    by (simp add: calculateStakingROI_def Let_def jsub_def inf_of_sign_def)
  moreover have "jdiv (Fin 200) (Fin 0) = PosInf"
    by (simp add: inf_of_sign_def)
  moreover have "stakingROI (calculateStakingROI (Fin 0) (Fin 0) (Fin 30)) = NaN"
    by (simp add: calculateStakingROI_def Let_def jsub_def inf_of_sign_def)
  moreover have "breakEvenPoint (calculateStakingROI (Fin 0) (Fin 0) (Fin 30)) = NaN"
    by (simp add: calculateStakingROI_def Let_def jsub_def inf_of_sign_def)
  ultimately show ?thesis
    using calculateStakingROI_division_by_zero [of "Fin 200" "Fin 30" "Fin 20" 200 20]
    by simp
qed

section \<open>Performance aggregation\<close>

lemma fold_push: "fold (\<lambda>x acc. acc @ [f x]) xs acc = acc @ map f xs"
  by (induction xs arbitrary: acc) simp_all

lemma mset_insort_cmp: "mset (insort_cmp cmp x ys) = add_mset x (mset ys)"
  by (induction ys) simp_all

lemma mset_js_sort: "mset (js_sort cmp xs) = mset xs"
  by (induction xs) (simp_all add: js_sort_def mset_insort_cmp)

lemma set_insort_cmp: "set (insort_cmp cmp x ys) = insert x (set ys)"
  by (induction ys) auto

lemma sorted_insort_cmp:
  "sorted_wrt (\<lambda>a b. k b \<le> k a) ys \<Longrightarrow>
   sorted_wrt (\<lambda>a b. k b \<le> k a) (insort_cmp (\<lambda>a b. k b - k a) x ys)"
  by (induction ys) (auto simp: set_insort_cmp)

lemma sorted_js_sort:
  "sorted_wrt (\<lambda>a b. k b \<le> (k a :: int)) (js_sort (\<lambda>a b. k b - k a) xs)"
  by (induction xs) (simp_all add: js_sort_def sorted_insort_cmp)

lemma recentActivity_take:
  "recentActivity (getUserPerformanceMetrics nts uid agentList bountyList transactions)
     = take 10 (generateRecentActivity nts agentList bountyList transactions)"
  by (simp add: getUserPerformanceMetrics_def Let_def)

lemma sorted_generateRecentActivity:
  "sorted_wrt (\<lambda>a b. activity_event.timestamp b \<le> activity_event.timestamp a)
     (generateRecentActivity nts agentList bountyList transactions)"
  unfolding generateRecentActivity_def Let_def by (rule sorted_js_sort)

lemma mset_generateRecentActivity:
  "mset (map (\<lambda>e. (event_type e, activity_event.timestamp e, event_value e))
          (generateRecentActivity nts agentList bountyList transactions))
     = mset (map (\<lambda>a. (agent_created, agent.createdAt a, None)) agentList)
     + mset (map (\<lambda>b. (bounty_completed, bounty_row.updatedAt b, Some (rewardAmount b)))
              (filter (\<lambda>b. bounty.status b = Closed) bountyList))
     + mset (map (\<lambda>t. (credits_earned, credit_transaction.timestamp t, Some (amount t)))
              (filter (\<lambda>t. transaction_type t = Earn) transactions))"
  unfolding generateRecentActivity_def Let_def
  apply (simp only: mset_map mset_js_sort fold_push append_Nil mset_append image_mset_union
      image_mset.compositionality comp_def)
  apply (simp only: activity_event.simps)
  done

text \<open>
  Claim C2. The feed of \<open>getUserPerformanceMetrics\<close> is the first ten entries of the list
  that holds one \<open>agent_created\<close> event per agent, one \<open>bounty_completed\<close> event per bounty
  whose status is \<open>Closed\<close>, with its reward as value, and one \<open>credits_earned\<close> event per
  transaction of type \<open>Earn\<close>, with its amount as value, sorted by timestamp, the most
  recent first: the feed is sorted that way too and has at most ten entries.
\<close>

theorem recentActivity_sorted_most_recent_ten:
  "recentActivity (getUserPerformanceMetrics nts uid agentList bountyList transactions)
     = take 10 (generateRecentActivity nts agentList bountyList transactions) \<and>
   mset (map (\<lambda>e. (event_type e, activity_event.timestamp e, event_value e))
          (generateRecentActivity nts agentList bountyList transactions))
     = mset (map (\<lambda>a. (agent_created, agent.createdAt a, None)) agentList)
     + mset (map (\<lambda>b. (bounty_completed, bounty_row.updatedAt b, Some (rewardAmount b)))
              (filter (\<lambda>b. bounty.status b = Closed) bountyList))
     + mset (map (\<lambda>t. (credits_earned, credit_transaction.timestamp t, Some (amount t)))
              (filter (\<lambda>t. transaction_type t = Earn) transactions)) \<and>
   sorted_wrt (\<lambda>a b. activity_event.timestamp a \<ge> activity_event.timestamp b)
     (generateRecentActivity nts agentList bountyList transactions) \<and>
   sorted_wrt (\<lambda>a b. activity_event.timestamp a \<ge> activity_event.timestamp b)
     (recentActivity (getUserPerformanceMetrics nts uid agentList bountyList transactions)) \<and>
   length (recentActivity (getUserPerformanceMetrics nts uid agentList bountyList transactions)) \<le> 10"
proof -
  note ra = recentActivity_take [of nts uid agentList bountyList transactions]
  note st = sorted_generateRecentActivity [of nts agentList bountyList transactions]
  note ms = mset_generateRecentActivity [of nts agentList bountyList transactions]
  have "sorted_wrt (\<lambda>a b. activity_event.timestamp a \<ge> activity_event.timestamp b)
     (take 10 (generateRecentActivity nts agentList bountyList transactions))"
    using st by (rule sorted_wrt_take)
  moreover have "length (take 10 (generateRecentActivity nts agentList bountyList transactions)) \<le> 10"
    by simp
  ultimately show ?thesis
    unfolding ra using st ms by blast
qed

text \<open>
  Eight agents, three bounties of which two are closed, and three transactions of which
  two earn: twelve events, of which the feed keeps the ten most recent, in order.
\<close>

theorem recentActivity_sorted_most_recent_ten_witness:
  "map (\<lambda>e. (event_type e, activity_event.timestamp e, event_value e))
     (recentActivity (getUserPerformanceMetrics (\<lambda>x. ''20'') ''user_1''
        (map (\<lambda>t. \<lparr> agent.agentId = ''agent_1'', agent.userId = ''user_1'',
                       agent.name = ''Code Assistant'', agent.description = ''reviews'',
                       agent.promptTemplate = ''Analyze: {code}'',
                       performanceMetrics = \<lparr> successRate = 88, totalRuns = 32, avgReward = 18.3 \<rparr>,
                       agent.status = Active, agent.createdAt = t, agent_row.updatedAt = t \<rparr>)
           [30, 10, 40, 11, 50, 90, 20, 60])
        (map (\<lambda>(s, t). \<lparr> bounty.bountyId = ''bounty_1'', creatorId = ''other_user'',
                       title = ''Audit'', bounty.description = ''review a contract'',
                       rewardAmount = 50, bounty.status = s, assignedAgentId = None,
                       bounty.createdAt = 1, bounty_row.updatedAt = t \<rparr>)
           [(Closed, 55), (Open, 95), (Closed, 5)])
        (map (\<lambda>(k, t). \<lparr> transactionId = ''tx_1'', credit_transaction.userId = ''user_1'',
                       transaction_type = k, amount = 20,
                       credit_transaction.description = None,
                       credit_transaction.timestamp = t \<rparr>)
           [(Earn, 70), (Spend, 99), (Earn, 35)])))
   = [(agent_created, 90, None), (credits_earned, 70, Some 20), (agent_created, 60, None),
      (bounty_completed, 55, Some 50), (agent_created, 50, None), (agent_created, 40, None),
      (credits_earned, 35, Some 20), (agent_created, 30, None), (agent_created, 20, None),
      (agent_created, 11, None)]"
  (is "map ?summary (recentActivity (getUserPerformanceMetrics ?nts ?uid ?as ?bs ?ts)) = ?feed")
proof -
  have "recentActivity (getUserPerformanceMetrics ?nts ?uid ?as ?bs ?ts)
          = take 10 (generateRecentActivity ?nts ?as ?bs ?ts)"
    using recentActivity_sorted_most_recent_ten [of ?nts ?uid ?as ?bs ?ts] by blast
  then show ?thesis
    by (simp add: generateRecentActivity_def js_sort_def)
qed




text \<open>
  The reduction that selects the top agent returns an element of the list that is
  maximal for the rate, and the first such element.
\<close>

lemma foldl_best:
  fixes r :: "'a \<Rightarrow> real"
  shows "\<exists>i < length (b # xs).
       foldl (\<lambda>best current. if r current > r best then current else best) b xs = (b # xs) ! i
     \<and> (\<forall>j < length (b # xs). r ((b # xs) ! j) \<le> r ((b # xs) ! i))
     \<and> (\<forall>j < i. r ((b # xs) ! j) < r ((b # xs) ! i))"
proof (induction xs rule: rev_induct)
  case Nil
  then show ?case by simp
next
  case (snoc x xs)
  let ?f = "\<lambda>best current. if r current > r best then current else best"
  define l where "l = b # xs"
  from snoc obtain i where i: "i < length l" "foldl ?f b xs = l ! i"
    "\<forall>j < length l. r (l ! j) \<le> r (l ! i)" "\<forall>j < i. r (l ! j) < r (l ! i)"
    unfolding l_def by blast
  have app: "b # xs @ [x] = l @ [x]" by (simp add: l_def)
  have step: "foldl ?f b (xs @ [x]) = (if r x > r (l ! i) then x else l ! i)"
    using i(2) by simp
  show ?case
  proof (cases "r x > r (l ! i)")
    case True
    have "foldl ?f b (xs @ [x]) = (l @ [x]) ! length l"
      using True step by simp
    moreover have "\<forall>j < length (l @ [x]). r ((l @ [x]) ! j) \<le> r ((l @ [x]) ! length l)"
    proof (intro allI impI)
      fix j assume "j < length (l @ [x])"
      then consider "j < length l" | "j = length l" by fastforce
      then show "r ((l @ [x]) ! j) \<le> r ((l @ [x]) ! length l)"
      proof cases
        case 1
        then have "r (l ! j) \<le> r (l ! i)" using i(3) by blast
        then show ?thesis using 1 True by (simp add: nth_append)
      next
        case 2
        then show ?thesis by simp
      qed
    qed
    moreover have "\<forall>j < length l. r ((l @ [x]) ! j) < r ((l @ [x]) ! length l)"
    proof (intro allI impI)
      fix j assume 1: "j < length l"
      then have "r (l ! j) \<le> r (l ! i)" using i(3) by blast
      then show "r ((l @ [x]) ! j) < r ((l @ [x]) ! length l)"
        using 1 True by (simp add: nth_append)
    qed
    moreover have "length l < length (l @ [x])" by simp
    ultimately show ?thesis unfolding app by blast
  next
    case False
    have "foldl ?f b (xs @ [x]) = (l @ [x]) ! i"
      using False step i(1) by (simp add: nth_append)
    moreover have "\<forall>j < length (l @ [x]). r ((l @ [x]) ! j) \<le> r ((l @ [x]) ! i)"
    proof (intro allI impI)
      fix j assume "j < length (l @ [x])"
      then consider "j < length l" | "j = length l" by fastforce
      then show "r ((l @ [x]) ! j) \<le> r ((l @ [x]) ! i)"
      proof cases
        case 1
        then have "r (l ! j) \<le> r (l ! i)" using i(3) by blast
        then show ?thesis using 1 i(1) by (simp add: nth_append)
      next
        case 2
        then show ?thesis using False i(1) by (simp add: nth_append)
      qed
    qed
    moreover have "\<forall>j < i. r ((l @ [x]) ! j) < r ((l @ [x]) ! i)"
      using i(1,4) by (simp add: nth_append)
    moreover have "i < length (l @ [x])" using i(1) by simp
    ultimately show ?thesis unfolding app by blast
  qed
qed

lemma top_Nil:
  "topPerformingAgent (getUserPerformanceMetrics nts uid [] bountyList transactions) = None"
  by (simp add: getUserPerformanceMetrics_def Let_def)

lemma top_Cons:
  "topPerformingAgent (getUserPerformanceMetrics nts uid (b # xs) bountyList transactions) =
     Some (foldl (\<lambda>best current.
                    if successRate (performanceMetrics current) > successRate (performanceMetrics best)
                    then current else best) b xs)"
  by (simp add: getUserPerformanceMetrics_def Let_def)

text \<open>
  Claim C3. Without agents the top agent is null. Otherwise it is an agent of the list
  whose success rate is at least that of every agent of the list, and the first of the
  list with that rate: every agent before it has a strictly smaller rate. When all rates
  are equal it is the first agent of the list.
\<close>

theorem topPerformingAgent_first_maximum:
  "topPerformingAgent (getUserPerformanceMetrics nts uid [] bountyList transactions) = None \<and>
   (agentList \<noteq> [] \<longrightarrow>
     (\<exists>i < length agentList.
        topPerformingAgent (getUserPerformanceMetrics nts uid agentList bountyList transactions)
          = Some (agentList ! i) \<and>
        (\<forall>j < length agentList. successRate (performanceMetrics (agentList ! j))
                               \<le> successRate (performanceMetrics (agentList ! i))) \<and>
        (\<forall>j < i. successRate (performanceMetrics (agentList ! j))
                               < successRate (performanceMetrics (agentList ! i))))) \<and>
   (agentList \<noteq> [] \<and> (\<forall>a \<in> set agentList. successRate (performanceMetrics a)
                                      = successRate (performanceMetrics (hd agentList))) \<longrightarrow>
      topPerformingAgent (getUserPerformanceMetrics nts uid agentList bountyList transactions)
          = Some (hd agentList))"
proof (intro conjI impI)
  show "topPerformingAgent (getUserPerformanceMetrics nts uid [] bountyList transactions) = None"
    by (rule top_Nil)
next
  assume ne: "agentList \<noteq> []"
  then obtain b xs where ag: "agentList = b # xs" by (cases agentList) auto
  from foldl_best [of b xs "\<lambda>a. successRate (performanceMetrics a)"]
  obtain i where i: "i < length (b # xs)"
    "foldl (\<lambda>best current. if successRate (performanceMetrics current)
                                > successRate (performanceMetrics best)
                             then current else best) b xs = (b # xs) ! i"
    "\<forall>j < length (b # xs). successRate (performanceMetrics ((b # xs) ! j))
                             \<le> successRate (performanceMetrics ((b # xs) ! i))"
    "\<forall>j < i. successRate (performanceMetrics ((b # xs) ! j))
                < successRate (performanceMetrics ((b # xs) ! i))"
    by blast
  have "topPerformingAgent (getUserPerformanceMetrics nts uid agentList bountyList transactions)
          = Some (agentList ! i)"
    unfolding ag top_Cons i(2) ..
  then show "\<exists>i < length agentList.
        topPerformingAgent (getUserPerformanceMetrics nts uid agentList bountyList transactions)
          = Some (agentList ! i) \<and>
        (\<forall>j < length agentList. successRate (performanceMetrics (agentList ! j))
                               \<le> successRate (performanceMetrics (agentList ! i))) \<and>
        (\<forall>j < i. successRate (performanceMetrics (agentList ! j))
                               < successRate (performanceMetrics (agentList ! i)))"
    using i(1,3,4) unfolding ag by blast
next
  assume h: "agentList \<noteq> [] \<and> (\<forall>a \<in> set agentList. successRate (performanceMetrics a)
                                      = successRate (performanceMetrics (hd agentList)))"
  then obtain b xs where ag: "agentList = b # xs" by (cases agentList) auto
  from foldl_best [of b xs "\<lambda>a. successRate (performanceMetrics a)"]
  obtain i where i: "i < length (b # xs)"
    "foldl (\<lambda>best current. if successRate (performanceMetrics current)
                                > successRate (performanceMetrics best)
                             then current else best) b xs = (b # xs) ! i"
    "\<forall>j < i. successRate (performanceMetrics ((b # xs) ! j))
                < successRate (performanceMetrics ((b # xs) ! i))"
    by blast
  have "i = 0"
  proof (rule ccontr)
    assume "i \<noteq> 0"
    then have "successRate (performanceMetrics ((b # xs) ! 0))
                 < successRate (performanceMetrics ((b # xs) ! i))"
      using i(3) by blast
    moreover have "(b # xs) ! i \<in> set agentList" unfolding ag using i(1) by (rule nth_mem)
    moreover have "(b # xs) ! 0 = hd agentList" unfolding ag by simp
    ultimately show False using h by fastforce
  qed
  then have "(b # xs) ! i = hd agentList" unfolding ag by simp
  then show "topPerformingAgent (getUserPerformanceMetrics nts uid agentList bountyList transactions)
          = Some (hd agentList)"
    unfolding ag top_Cons i(2) by simp
qed

text \<open>Three agents with the rates 88, 92 and 92: the second one is selected.\<close>

theorem topPerformingAgent_first_maximum_witness:
  "map (\<lambda>(i, r). \<lparr> agent.agentId = i, agent.userId = ''user_1'',
                     agent.name = ''Agent'', agent.description = ''an agent'',
                     agent.promptTemplate = ''Do: {task}'',
                     performanceMetrics = \<lparr> successRate = r, totalRuns = 45, avgReward = 12.5 \<rparr>,
                     agent.status = Active, agent.createdAt = 1, agent_row.updatedAt = 1 \<rparr>)
      [(''agent_1'', 88), (''agent_2'', 92), (''agent_3'', 92)] \<noteq> [] \<and>
   map_option agent.agentId
     (topPerformingAgent (getUserPerformanceMetrics (\<lambda>x. ''20'') ''user_1''
        (map (\<lambda>(i, r). \<lparr> agent.agentId = i, agent.userId = ''user_1'',
                     agent.name = ''Agent'', agent.description = ''an agent'',
                     agent.promptTemplate = ''Do: {task}'',
                     performanceMetrics = \<lparr> successRate = r, totalRuns = 45, avgReward = 12.5 \<rparr>,
                     agent.status = Active, agent.createdAt = 1, agent_row.updatedAt = 1 \<rparr>)
           [(''agent_1'', 88), (''agent_2'', 92), (''agent_3'', 92)]) [] []))
     = Some ''agent_2''"
  using topPerformingAgent_first_maximum [of "\<lambda>x. ''20''" "''user_1''" "[]" "[]"
    "map (\<lambda>(i, r). \<lparr> agent.agentId = i, agent.userId = ''user_1'',
                     agent.name = ''Agent'', agent.description = ''an agent'',
                     agent.promptTemplate = ''Do: {task}'',
                     performanceMetrics = \<lparr> successRate = r, totalRuns = 45, avgReward = 12.5 \<rparr>,
                     agent.status = Active, agent.createdAt = 1, agent_row.updatedAt = 1 \<rparr>)
           [(''agent_1'', 88), (''agent_2'', 92), (''agent_3'', 92)]"]
  by (simp add: top_Cons)

section \<open>Claiming a bounty at the data layer\<close>



section \<open>Launching an agent with credits\<close>

text \<open>
  Claim C10. When there is a user with at least 10 credits and the three fields of the
  form are filled, \<open>handleCreditLaunch\<close> takes exactly 10 credits from the balance, which
  stays at or above 0, and appends exactly one agent, active and with all metrics at
  zero. In every other case it changes nothing. So a balance that is not negative stays
  so, and the list of agents grows by one exactly when the credits are taken.
\<close>

theorem handleCreditLaunch_guarded:
  "(app_state.user st = Some u \<and> 10 \<le> creditBalance u \<and>
    form_data.name (formData st) \<noteq> '''' \<and> form_data.description (formData st) \<noteq> '''' \<and>
    form_data.promptTemplate (formData st) \<noteq> '''' \<longrightarrow>
      app_state.user (handleCreditLaunch nts now st)
        = Some (u\<lparr> creditBalance := creditBalance u - 10 \<rparr>) \<and>
      0 \<le> creditBalance u - 10 \<and>
      app_state.agents (handleCreditLaunch nts now st)
        = app_state.agents st @
          [\<lparr> agent.agentId = ''agent_'' @ nts (real_of_int now),
             agent.userId = user.userId u,
             agent.name = form_data.name (formData st),
             agent.description = form_data.description (formData st),
             agent.promptTemplate = form_data.promptTemplate (formData st),
             performanceMetrics = \<lparr> successRate = 0, totalRuns = 0, avgReward = 0 \<rparr>,
             agent.status = Active,
             agent.createdAt = now \<rparr>] \<and>
      app_state.bounties (handleCreditLaunch nts now st) = app_state.bounties st) \<and>
   (app_state.user st = None \<or> (\<exists>v. app_state.user st = Some v \<and> creditBalance v < 10) \<or>
    form_data.name (formData st) = '''' \<or> form_data.description (formData st) = '''' \<or>
    form_data.promptTemplate (formData st) = '''' \<longrightarrow>
      handleCreditLaunch nts now st = st) \<and>
   (app_state.user st = Some u \<and> 0 \<le> creditBalance u \<and>
    app_state.user (handleCreditLaunch nts now st) = Some u' \<longrightarrow>
      0 \<le> creditBalance u' \<and>
      (creditBalance u' = creditBalance u \<or> creditBalance u' = creditBalance u - 10) \<and>
      (creditBalance u' = creditBalance u - 10 \<longleftrightarrow>
         length (app_state.agents (handleCreditLaunch nts now st))
           = Suc (length (app_state.agents st))))"
  by (cases "app_state.user st")
     (auto simp: handleCreditLaunch_def updateUser_def addAgent_def Let_def)

text \<open>
  The starting balance of 100 credits and a filled form: the launch leaves 90 credits and
  one agent. With 5 credits the same form changes nothing.
\<close>

theorem handleCreditLaunch_guarded_witness:
  "map_option creditBalance (app_state.user (handleCreditLaunch (\<lambda>x. ''1700000000000'') 1700000000000
      \<lparr> app_state.user = Some \<lparr> user.userId = ''user_1'', walletAddress = ''0xabc'',
                                 creditBalance = 100, stakedAmount = 0,
                                 user.agents = [], user.bounties = [] \<rparr>,
        app_state.agents = [], app_state.bounties = [],
        formData = \<lparr> name = ''Code Assistant'', description = ''Helps with code reviews'',
                     promptTemplate = ''Analyze and improve this code: {code}'' \<rparr>,
        timers = [] \<rparr>)) = Some 90 \<and>
   app_state.agents (handleCreditLaunch (\<lambda>x. ''1700000000000'') 1700000000000
      \<lparr> app_state.user = Some \<lparr> user.userId = ''user_1'', walletAddress = ''0xabc'',
                                 creditBalance = 100, stakedAmount = 0,
                                 user.agents = [], user.bounties = [] \<rparr>,
        app_state.agents = [], app_state.bounties = [],
        formData = \<lparr> name = ''Code Assistant'', description = ''Helps with code reviews'',
                     promptTemplate = ''Analyze and improve this code: {code}'' \<rparr>,
        timers = [] \<rparr>)
     = [\<lparr> agent.agentId = ''agent_1700000000000'', agent.userId = ''user_1'',
          agent.name = ''Code Assistant'', agent.description = ''Helps with code reviews'',
          agent.promptTemplate = ''Analyze and improve this code: {code}'',
          performanceMetrics = \<lparr> successRate = 0, totalRuns = 0, avgReward = 0 \<rparr>,
          agent.status = Active, agent.createdAt = 1700000000000 \<rparr>] \<and>
   handleCreditLaunch (\<lambda>x. ''1700000000000'') 1700000000000
      \<lparr> app_state.user = Some \<lparr> user.userId = ''user_1'', walletAddress = ''0xabc'',
                                 creditBalance = 5, stakedAmount = 0,
                                 user.agents = [], user.bounties = [] \<rparr>,
        app_state.agents = [], app_state.bounties = [],
        formData = \<lparr> name = ''Code Assistant'', description = ''Helps with code reviews'',
                     promptTemplate = ''Analyze and improve this code: {code}'' \<rparr>,
        timers = [] \<rparr>
     = \<lparr> app_state.user = Some \<lparr> user.userId = ''user_1'', walletAddress = ''0xabc'',
                                 creditBalance = 5, stakedAmount = 0,
                                 user.agents = [], user.bounties = [] \<rparr>,
        app_state.agents = [], app_state.bounties = [],
        formData = \<lparr> name = ''Code Assistant'', description = ''Helps with code reviews'',
                     promptTemplate = ''Analyze and improve this code: {code}'' \<rparr>,
        timers = [] \<rparr>"
  (is "map_option creditBalance (app_state.user (handleCreditLaunch ?nts ?now ?rich)) = Some 90 \<and>
       app_state.agents (handleCreditLaunch ?nts ?now ?rich) = ?launched \<and>
       handleCreditLaunch ?nts ?now ?poor = ?poor")
proof -
  let ?u = "the (app_state.user ?rich)" and ?v = "the (app_state.user ?poor)"
  have rich: "app_state.user ?rich = Some ?u \<and> 10 \<le> creditBalance ?u \<and>
      form_data.name (formData ?rich) \<noteq> '''' \<and> form_data.description (formData ?rich) \<noteq> '''' \<and>
      form_data.promptTemplate (formData ?rich) \<noteq> ''''"
    by simp
  have poor: "app_state.user ?poor = Some ?v \<and> creditBalance ?v < 10"
    by simp
  from rich handleCreditLaunch_guarded [of ?rich ?u ?nts ?now]
  have "app_state.user (handleCreditLaunch ?nts ?now ?rich)
          = Some (?u\<lparr> creditBalance := creditBalance ?u - 10 \<rparr>) \<and>
        app_state.agents (handleCreditLaunch ?nts ?now ?rich)
          = app_state.agents ?rich @
            [\<lparr> agent.agentId = ''agent_'' @ ?nts (real_of_int ?now),
               agent.userId = user.userId ?u,
               agent.name = form_data.name (formData ?rich),
               agent.description = form_data.description (formData ?rich),
               agent.promptTemplate = form_data.promptTemplate (formData ?rich),
               performanceMetrics = \<lparr> successRate = 0, totalRuns = 0, avgReward = 0 \<rparr>,
               agent.status = Active,
               agent.createdAt = ?now \<rparr>]"
    by blast
  then have "map_option creditBalance (app_state.user (handleCreditLaunch ?nts ?now ?rich)) = Some 90 \<and>
       app_state.agents (handleCreditLaunch ?nts ?now ?rich) = ?launched"
    by simp
  moreover from poor handleCreditLaunch_guarded [of ?poor _ ?nts ?now]
  have "handleCreditLaunch ?nts ?now ?poor = ?poor" by blast
  ultimately show ?thesis by blast
qed

section \<open>The text-completion wrappers\<close>

text \<open>
  Claim C6. When the endpoint returns a completion whose text \<^verbatim>\<open>JSON.parse\<close> rejects,
  \<open>optimizePrompt\<close> returns the current prompt unchanged with its fixed reasoning,
  \<open>generatePerformanceInsights\<close> returns its four fixed lists, and
  \<open>validateBountySubmission\<close> returns the score 50 with \<open>meetsRequirements\<close> false: each
  returns (\<open>Inr\<close>) and none throws.
\<close>

theorem unparseable_reply_yields_fallback:
  "ep n = Inr c \<and> JSON_parse h (response_text c) = None \<longrightarrow>
     fst (optimizePrompt h current ep n)
       = Inr \<lparr> currentPrompt = current,
               suggestedPrompt = JStr current,
               reasoning = JStr ''Unable to generate optimization suggestions at this time.'',
               expectedImprovement = JStr ''Please try again later.'' \<rparr> \<and>
     fst (generatePerformanceInsights h ep n)
       = Inr \<lparr> strengths = JArr [JStr ''Consistent performance''],
               weaknesses = JArr [JStr ''Limited data for analysis''],
               recommendations = JArr [JStr ''Continue monitoring performance''],
               marketOpportunities = JArr [JStr ''Explore new task types''] \<rparr> \<and>
     fst (validateBountySubmission h ep n)
       = Inr \<lparr> score = Fin 50,
               feedback = JStr ''Unable to evaluate submission at this time'',
               meetsRequirements = False,
               suggestions = [JStr ''Please resubmit for manual review''] \<rparr>"
  by (simp add: optimizePrompt_def generatePerformanceInsights_def
      validateBountySubmission_def create_def Let_def)

text \<open>A reply in prose, which is not JSON: the parser of the host rejects it.\<close>

theorem unparseable_reply_yields_fallback_witness:
  "fst (optimizePrompt
          \<lparr> JSON_parse = (\<lambda>s. if s = ''null'' then Some JNull else None),
            StringToNumber = (\<lambda>s. NaN), Array_join = (\<lambda>xs. None) \<rparr>
          ''Create engaging content about: {topic}''
          (\<lambda>k. Inr \<lparr> content = Some ''Sure! Here is an improved prompt.'',
                      total_tokens = Some 12 \<rparr>) 0)
     = Inr \<lparr> currentPrompt = ''Create engaging content about: {topic}'',
             suggestedPrompt = JStr ''Create engaging content about: {topic}'',
             reasoning = JStr ''Unable to generate optimization suggestions at this time.'',
             expectedImprovement = JStr ''Please try again later.'' \<rparr> \<and>
   map_sum id score
     (fst (validateBountySubmission
          \<lparr> JSON_parse = (\<lambda>s. if s = ''null'' then Some JNull else None),
            StringToNumber = (\<lambda>s. NaN), Array_join = (\<lambda>xs. None) \<rparr>
          (\<lambda>k. Inr \<lparr> content = Some ''Sure! Here is an improved prompt.'',
                      total_tokens = Some 12 \<rparr>) 0))
     = Inr (Fin 50)"
  (is "fst (optimizePrompt ?h ?p ?ep 0) = Inr ?fallback \<and>
       map_sum id score (fst (validateBountySubmission ?h ?ep 0)) = Inr (Fin 50)")
proof -
  let ?c = "\<lparr> content = Some ''Sure! Here is an improved prompt.'', total_tokens = Some 12 \<rparr>"
  have "?ep 0 = Inr ?c \<and> JSON_parse ?h (response_text ?c) = None"
    by (simp add: response_text_def)
  with unparseable_reply_yields_fallback [of ?ep 0 ?c ?h ?p]
  have "fst (optimizePrompt ?h ?p ?ep 0) = Inr ?fallback \<and>
        fst (validateBountySubmission ?h ?ep 0)
          = Inr \<lparr> score = Fin 50,
               feedback = JStr ''Unable to evaluate submission at this time'',
               meetsRequirements = False,
               suggestions = [JStr ''Please resubmit for manual review''] \<rparr>"
    by blast
  then show ?thesis by simp
qed




text \<open>
  The clamp of \<open>validateBountySubmission\<close> on a reply that parses to an object: a finite
  score is brought into the range from 0 to 100, and a missing score counts as 0.
\<close>

lemma validateBountySubmission_finite_score_clamped:
  assumes "ep n = Inr c" and "JSON_parse h (response_text c) = Some (JObj props)"
    and "map_of props ''score'' = Some (JNum (Fin x))"
  shows "\<exists>r. fst (validateBountySubmission h ep n) = Inr r \<and> score r = Fin (max 0 (min 100 x))"
  using assms
  by (simp add: validateBountySubmission_def create_def Let_def js_or_def max_def min_def)

lemma validateBountySubmission_missing_score_zero:
  assumes "ep n = Inr c" and "JSON_parse h (response_text c) = Some (JObj props)"
    and "map_of props ''score'' = None"
  shows "\<exists>r. fst (validateBountySubmission h ep n) = Inr r \<and> score r = Fin 0"
  using assms
  by (simp add: validateBountySubmission_def create_def Let_def js_or_def)

text \<open>
  Claim C9 does not hold of the code. When the reply parses to an object whose \<open>score\<close>
  is a truthy value that \<^verbatim>\<open>ToNumber\<close> turns into \<open>NaN\<close> (an object, or a string that is
  not a numeral), \<^verbatim>\<open>Math.min\<close> and \<^verbatim>\<open>Math.max\<close> return \<open>NaN\<close>: the wrapper returns,
  with a score that is not a number between 0 and 100.
\<close>

theorem validateBountySubmission_score_NaN:
  "ep n = Inr c \<and> JSON_parse h (response_text c) = Some (JObj props) \<and>
   map_of props ''score'' = Some v \<and> truthy v \<and> ToNumber h v = Some NaN \<longrightarrow>
     (\<exists>r. fst (validateBountySubmission h ep n) = Inr r \<and> score r = NaN \<and>
          \<not> (\<exists>x. score r = Fin x \<and> 0 \<le> x \<and> x \<le> 100))"
  by (simp add: validateBountySubmission_def create_def Let_def js_or_def)

text \<open>The reply \<^verbatim>\<open>{"score": {"value": 85}}\<close>, on a host that parses it.\<close>

theorem validateBountySubmission_score_NaN_witness:
  \<open>map_sum id score
     (fst (validateBountySubmission
        \<lparr> JSON_parse = (\<lambda>s. if s = ''{"score": {"value": 85}}''
                              then Some (JObj [(''score'', JObj [(''value'', JNum (Fin 85))])])
                              else None),
          StringToNumber = (\<lambda>s. NaN), Array_join = (\<lambda>xs. None) \<rparr>
        (\<lambda>k. Inr \<lparr> content = Some ''{"score": {"value": 85}}'', total_tokens = Some 9 \<rparr>) 0))
   = Inr NaN\<close>
  (is "map_sum id score (fst (validateBountySubmission ?h ?ep 0)) = Inr NaN")
proof -
  let ?c = \<open>\<lparr> content = Some ''{"score": {"value": 85}}'', total_tokens = Some 9 \<rparr>\<close>
  let ?v = "JObj [(''value'', JNum (Fin 85))]"
  have "?ep 0 = Inr ?c \<and> JSON_parse ?h (response_text ?c) = Some (JObj [(''score'', ?v)]) \<and>
        map_of [(''score'', ?v)] ''score'' = Some ?v \<and> truthy ?v \<and> ToNumber ?h ?v = Some NaN"
    by (simp add: response_text_def)
  with validateBountySubmission_score_NaN [of ?ep 0 ?c ?h "[(''score'', ?v)]" ?v]
  obtain r where "fst (validateBountySubmission ?h ?ep 0) = Inr r" and "score r = NaN"
    by blast
  then show ?thesis by simp
qed

end
